theory Spec2Isabelle
  imports Main "HOL-Library.Product_Lexorder"
begin

section \<open>Data model (src/src/App.tsx, interfaces Product and CartItem)\<close>

text \<open>
  The prices, stock levels and quantities of products and cart lines are integers: the
  store's columns are INTEGER. The stock value \<open>-1\<close> is the sentinel for an unlimited
  product. The field \<open>id\<close> of the source is called \<open>pid\<close> here, since \<open>id\<close> is
  the identity function of HOL.
\<close>

record product =
  pid :: int
  name :: string
  category :: string
  price :: int
  stock :: int
  image_url :: "string option"

record cart_item = product +
  quantity :: int

datatype order_type = DineIn | TakeAway

section \<open>Numbers of the checkout\<close>

text \<open>
  The total of the cart, the amount paid and the change are JavaScript numbers, IEEE
  doubles. The values that occur are the integers the format represents, the two
  infinities and \<open>NaN\<close>: the total is a sum of products of integers, and the amount
  is what \<open>parseInt\<close> read from the amount field or a total that the payment method
  select stored. Zero stands for both zeros, which the operations below and
  \<open>JSON.stringify\<close> do not tell apart.
\<close>

datatype js_number = Fin int | PosInf | NegInf | NaN

text \<open>
  The result of an operation on such numbers is the exact result rounded to the nearest
  double, to the even one of two nearest: an integer keeps its 53 leading binary digits.
  \<open>bit_length m\<close> is the number of binary digits of a positive \<open>m\<close>. A rounded result
  of magnitude \<open>2^1024\<close> or more is an infinity.
\<close>

function bit_length :: "int \<Rightarrow> nat" where
  "bit_length m = (if m \<le> 0 then 0 else Suc (bit_length (m div 2)))"
  by pat_completeness auto
termination
  by (relation "measure nat") auto

definition round53 :: "int \<Rightarrow> int" where
  "round53 x =
     (let m = \<bar>x\<bar>;
          e = bit_length m - 53;
          q = m div 2 ^ e;
          r = m mod 2 ^ e;
          n = (if 2 * r > 2 ^ e \<or> (2 * r = 2 ^ e \<and> odd q) then (q + 1) * 2 ^ e else q * 2 ^ e)
      in if x < 0 then - n else n)"

definition to_double :: "int \<Rightarrow> js_number" where
  "to_double x =
     (let r = round53 x in
      if r \<ge> 2 ^ 1024 then PosInf else if r \<le> - (2 ^ 1024) then NegInf else Fin r)"

fun js_neg :: "js_number \<Rightarrow> js_number" where
  "js_neg (Fin a) = Fin (- a)"
| "js_neg PosInf = NegInf"
| "js_neg NegInf = PosInf"
| "js_neg NaN = NaN"

fun js_add :: "js_number \<Rightarrow> js_number \<Rightarrow> js_number" where
  "js_add NaN _ = NaN"
| "js_add _ NaN = NaN"
| "js_add (Fin a) (Fin b) = to_double (a + b)"
| "js_add PosInf NegInf = NaN"
| "js_add NegInf PosInf = NaN"
| "js_add PosInf _ = PosInf"
| "js_add _ PosInf = PosInf"
| "js_add NegInf _ = NegInf"
| "js_add _ NegInf = NegInf"

definition js_sub :: "js_number \<Rightarrow> js_number \<Rightarrow> js_number" where
  "js_sub a b = js_add a (js_neg b)"

text \<open>\<open>a < b\<close>, false whenever one side is \<open>NaN\<close>, and \<open>Math.max(a, b)\<close>.\<close>

fun js_less :: "js_number \<Rightarrow> js_number \<Rightarrow> bool" where
  "js_less NaN _ = False"
| "js_less _ NaN = False"
| "js_less (Fin a) (Fin b) = (a < b)"
| "js_less PosInf _ = False"
| "js_less _ PosInf = True"
| "js_less _ NegInf = False"
| "js_less NegInf _ = True"

fun js_max :: "js_number \<Rightarrow> js_number \<Rightarrow> js_number" where
  "js_max NaN _ = NaN"
| "js_max _ NaN = NaN"
| "js_max a b = (if js_less a b then b else a)"

text \<open>
  The number as the store receives it: the client sends the row as JSON, and
  \<open>JSON.stringify\<close> writes \<open>null\<close> for \<open>NaN\<close> and the infinities.
\<close>

fun json :: "js_number \<Rightarrow> int option" where
  "json (Fin n) = Some n"
| "json _ = None"

section \<open>Cart operations (addToCart, removeFromCart, updateQuantity, cartTotal)\<close>

text \<open>
  Each operation is the function passed to \<open>setCart\<close>: it maps the previous cart to
  the next one. \<open>addToCart\<close> returns before calling \<open>setCart\<close> when the product is
  stock-limited and has no stock left, which leaves the cart as it was.
\<close>

definition with_quantity :: "product \<Rightarrow> int \<Rightarrow> cart_item" where
  "with_quantity p q =
     \<lparr>pid = pid p, name = name p, category = category p, price = price p,
      stock = stock p, image_url = image_url p, quantity = q\<rparr>"

definition addToCart :: "product \<Rightarrow> cart_item list \<Rightarrow> cart_item list" where
  "addToCart p prev =
     (if stock p \<noteq> -1 \<and> stock p \<le> 0 then prev
      else (case find (\<lambda>item. pid item = pid p) prev of
              Some existing \<Rightarrow>
                map (\<lambda>item. if pid item = pid p
                             then item\<lparr>quantity := quantity item + 1\<rparr>
                             else item) prev
            | None \<Rightarrow> prev @ [with_quantity p 1]))"

definition removeFromCart :: "int \<Rightarrow> cart_item list \<Rightarrow> cart_item list" where
  "removeFromCart productId prev = filter (\<lambda>item. pid item \<noteq> productId) prev"

definition updateLine :: "int \<Rightarrow> int \<Rightarrow> cart_item \<Rightarrow> cart_item" where
  "updateLine productId delta item =
     (if pid item = productId then
        (let newQty = max 1 (quantity item + delta) in
         if delta > 0 \<and> stock item \<noteq> -1 \<and> newQty > stock item then item
         else item\<lparr>quantity := newQty\<rparr>)
      else item)"

definition updateQuantity :: "int \<Rightarrow> int \<Rightarrow> cart_item list \<Rightarrow> cart_item list" where
  "updateQuantity productId delta prev = map (updateLine productId delta) prev"

definition cartTotal :: "cart_item list \<Rightarrow> js_number" where
  "cartTotal cart =
     foldl (\<lambda>sum item. js_add sum (to_double (price item * quantity item))) (Fin 0) cart"

text \<open>A sequence of cart operations, run from a starting cart.\<close>

datatype cart_op = Add product | SetQuantity int int | Remove int

fun apply_cart_op :: "cart_item list \<Rightarrow> cart_op \<Rightarrow> cart_item list" where
  "apply_cart_op c (Add p) = addToCart p c"
| "apply_cart_op c (SetQuantity productId delta) = updateQuantity productId delta c"
| "apply_cart_op c (Remove productId) = removeFromCart productId c"

definition run_cart_ops :: "cart_op list \<Rightarrow> cart_item list" where
  "run_cart_ops ops = foldl apply_cart_op [] ops"

text \<open>The invariant of the cart line the specification names.\<close>

definition within_ceiling :: "cart_item \<Rightarrow> bool" where
  "within_ceiling item = (stock item = -1 \<or> quantity item \<le> stock item)"

section \<open>The store (the external collaborator reached through getSupabase)\<close>

text \<open>
  The rows the checkout sends: the object literal inserted into \<open>transactions\<close> and
  the elements of \<open>transactionItems\<close>. The fields \<open>quantity\<close> and \<open>price\<close> of an
  item row are called \<open>row_quantity\<close> and \<open>row_price\<close>, the names without prefix
  being those of the cart line. The three amounts of a transaction row are numbers as
  the store receives them, \<open>None\<close> being \<open>null\<close>.
\<close>

record tx_row =
  total_amount :: "int option"
  customer_name :: "nat list"
  order_type :: order_type
  amount_paid :: "int option"
  change_amount :: "int option"
  payment_method :: string

record item_row =
  transaction_id :: int
  product_id :: int
  product_name :: string
  row_quantity :: int
  row_price :: int

text \<open>
  The store keeps three tables. A transaction is stored with the id the store assigned to
  it (\<open>next_id\<close>, then incremented: the ids of one store are distinct). The store is not
  code of the repository; the model fixes the three things the checkout relies on: an
  insert that succeeds appends the rows and returns the assigned id, an update that
  succeeds writes the given value into the rows the filter \<open>eq('id', ...)\<close> selects, and
  a call that reports an error leaves the tables as they were.
\<close>

record store =
  products :: "product list"
  transactions :: "(int \<times> tx_row) list"
  transaction_items :: "item_row list"
  next_id :: int

text \<open>
  Which calls the store answers with an error is an input of the model: the message of the
  error for the insert into \<open>transactions\<close>, for the insert into \<open>transaction_items\<close>,
  and, as a list of pairs of a product id and a message, for the stock updates. The
  client returns the error of a call in the field \<open>error\<close> of its answer.
\<close>

record faults =
  tx_error :: "string option"
  items_error :: "string option"
  stock_error :: "(int \<times> string) list"

definition insert_transaction :: "faults \<Rightarrow> tx_row \<Rightarrow> store \<Rightarrow> (string + int) \<times> store" where
  "insert_transaction f row st =
     (case tx_error f of
        Some msg \<Rightarrow> (Inl msg, st)
      | None \<Rightarrow> (Inr (next_id st),
                 st\<lparr>transactions := transactions st @ [(next_id st, row)],
                    next_id := next_id st + 1\<rparr>))"

definition insert_items :: "faults \<Rightarrow> item_row list \<Rightarrow> store \<Rightarrow> string option \<times> store" where
  "insert_items f rows st =
     (case items_error f of
        Some msg \<Rightarrow> (Some msg, st)
      | None \<Rightarrow> (None, st\<lparr>transaction_items := transaction_items st @ rows\<rparr>))"

definition update_stock :: "faults \<Rightarrow> int \<Rightarrow> int \<Rightarrow> store \<Rightarrow> string option \<times> store" where
  "update_stock f productId v st =
     (case map_of (stock_error f) productId of
        Some msg \<Rightarrow> (Some msg, st)
      | None \<Rightarrow> (None, st\<lparr>products := map (\<lambda>p. if pid p = productId then p\<lparr>stock := v\<rparr> else p)
                                         (products st)\<rparr>))"

definition stock_of :: "store \<Rightarrow> int \<Rightarrow> int option" where
  "stock_of st productId = map_option stock (find (\<lambda>p. pid p = productId) (products st))"

section \<open>Checkout (handleCheckout)\<close>

text \<open>
  The state of the component that the checkout reads and writes. \<open>amountPaid\<close> is
  \<open>number | ''\<close> in the source: \<open>Blank\<close> is the empty string, and \<open>Entered x\<close> is
  a number, for which \<open>typeof amountPaid === 'number'\<close> holds: an integer, an infinity,
  or \<open>NaN\<close>, which \<open>parseInt\<close> gives for a text without leading digits such as
  \<open>.5\<close>. The customer name is a JavaScript string, a sequence of UTF-16 code units.
\<close>

datatype amount = Blank | Entered js_number

record ui =
  cart :: "cart_item list"
  customerName :: "nat list"
  orderType :: order_type
  amountPaid :: amount
  paymentMethod :: string
  isProcessing :: bool
  showSuccess :: bool

text \<open>Every call the checkout issues to the store is recorded, in order.\<close>

datatype call =
    InsertTransaction tx_row
  | InsertItems "item_row list"
  | UpdateStock int int
  | SelectProducts
  | SelectHistory

datatype log_entry =
    StockUpdateFailed int string
  | CheckoutFailedLog string

text \<open>
  The exits of \<open>handleCheckout\<close>. The source returns nothing; the three early returns
  and the single \<open>catch\<close> block are the errors, and the \<open>catch\<close> block carries the
  message of whatever was thrown in the \<open>try\<close> block.
\<close>

datatype checkout_error =
    EmptyCart
  | MissingCustomer
  | InsufficientPayment
  | CheckoutFailed string

record outcome =
  result :: "checkout_error + unit"
  ui_after :: ui
  store_after :: store
  calls :: "call list"
  alerts :: "string list"
  console :: "log_entry list"

text \<open>
  \<open>String.prototype.trim\<close> removes from both ends the code units that are white space
  or line terminators: tab, line feed, vertical tab, form feed, carriage return, space,
  no-break space (U+00A0), U+1680, U+2000 to U+200A, the line and paragraph separators
  (U+2028, U+2029), U+202F, U+205F, U+3000 and the byte order mark (U+FEFF).
\<close>

definition is_space :: "nat \<Rightarrow> bool" where
  "is_space c =
     (c \<in> set [0x09, 0x0A, 0x0B, 0x0C, 0x0D, 0x20, 0xA0, 0x1680, 0x2028, 0x2029, 0x202F,
                0x205F, 0x3000, 0xFEFF] \<or> (0x2000 \<le> c \<and> c \<le> 0x200A))"

definition trim :: "nat list \<Rightarrow> nat list" where
  "trim s = rev (dropWhile is_space (rev (dropWhile is_space s)))"

text \<open>
  \<open>paid\<close>: the amount when it is a number, else the total. The row of step 1 carries
  the total, \<open>paid\<close> and \<open>Math.max(0, paid - total)\<close>.
\<close>

definition paid_amount :: "ui \<Rightarrow> js_number" where
  "paid_amount u = (case amountPaid u of Entered x \<Rightarrow> x | Blank \<Rightarrow> cartTotal (cart u))"

definition transaction_row :: "ui \<Rightarrow> tx_row" where
  "transaction_row u =
     \<lparr>total_amount = json (cartTotal (cart u)),
      customer_name = customerName u,
      order_type = orderType u,
      amount_paid = json (paid_amount u),
      change_amount = json (js_max (Fin 0) (js_sub (paid_amount u) (cartTotal (cart u)))),
      payment_method = paymentMethod u\<rparr>"

definition transactionItems :: "int \<Rightarrow> cart_item list \<Rightarrow> item_row list" where
  "transactionItems tid c =
     map (\<lambda>item. \<lparr>transaction_id = tid, product_id = pid item, product_name = name item,
                   row_quantity = quantity item, row_price = price item\<rparr>) c"

text \<open>
  Step 3, the loop over the cart: a stock-limited line writes \<open>item.stock - item.quantity\<close>,
  computed from the line's own snapshot, to the product row; an error of that call is
  logged and the loop goes on.
\<close>

fun update_stocks ::
  "faults \<Rightarrow> cart_item list \<Rightarrow> store \<times> call list \<times> log_entry list \<Rightarrow>
   store \<times> call list \<times> log_entry list" where
  "update_stocks f [] acc = acc"
| "update_stocks f (item # rest) (st, cs, lg) =
     (if stock item \<noteq> -1 then
        (case update_stock f (pid item) (stock item - quantity item) st of
           (sError, st') \<Rightarrow>
             update_stocks f rest
               (st', cs @ [UpdateStock (pid item) (stock item - quantity item)],
                (case sError of
                   Some msg \<Rightarrow> lg @ [StockUpdateFailed (pid item) msg]
                 | None \<Rightarrow> lg)))
      else update_stocks f rest (st, cs, lg))"

definition reset_ui :: "ui \<Rightarrow> ui" where
  "reset_ui u =
     u\<lparr>cart := [], customerName := [], orderType := DineIn, amountPaid := Blank,
       paymentMethod := ''Cash'', showSuccess := True, isProcessing := False\<rparr>"

definition checkout_failed :: "string \<Rightarrow> ui \<Rightarrow> store \<Rightarrow> call list \<Rightarrow> outcome" where
  "checkout_failed msg u st cs =
     \<lparr>result = Inl (CheckoutFailed msg),
      ui_after = u\<lparr>isProcessing := False\<rparr>,
      store_after = st,
      calls = cs,
      alerts = [''Checkout gagal: '' @ msg],
      console = [CheckoutFailedLog msg]\<rparr>"

definition rejected :: "checkout_error \<Rightarrow> string list \<Rightarrow> ui \<Rightarrow> store \<Rightarrow> outcome" where
  "rejected e as u st =
     \<lparr>result = Inl e, ui_after = u, store_after = st, calls = [], alerts = as, console = []\<rparr>"

text \<open>
  The \<open>try\<close> block: the three steps, each awaited before the next. A thrown error
  (\<open>tError\<close> of step 1, \<open>iError\<close> of step 2) reaches the one \<open>catch\<close> block;
  \<open>finally\<close> resets \<open>isProcessing\<close> on every path.
\<close>

definition try_checkout :: "faults \<Rightarrow> ui \<Rightarrow> store \<Rightarrow> outcome" where
  "try_checkout f u st =
     (case insert_transaction f (transaction_row u) st of
        (Inl msg, st1) \<Rightarrow> checkout_failed msg u st1 [InsertTransaction (transaction_row u)]
      | (Inr tid, st1) \<Rightarrow>
          (case insert_items f (transactionItems tid (cart u)) st1 of
             (Some msg, st2) \<Rightarrow>
               checkout_failed msg u st2
                 [InsertTransaction (transaction_row u),
                  InsertItems (transactionItems tid (cart u))]
           | (None, st2) \<Rightarrow>
               (case update_stocks f (cart u)
                       (st2, [InsertTransaction (transaction_row u),
                              InsertItems (transactionItems tid (cart u))], []) of
                  (st3, cs, lg) \<Rightarrow>
                    \<lparr>result = Inr (),
                     ui_after = reset_ui u,
                     store_after = st3,
                     calls = cs @ [SelectProducts, SelectHistory],
                     alerts = [],
                     console = lg\<rparr>)))"

definition handleCheckout :: "faults \<Rightarrow> ui \<Rightarrow> store \<Rightarrow> outcome" where
  "handleCheckout f u st =
     (if cart u = [] then rejected EmptyCart [] u st
      else if trim (customerName u) = [] then
        rejected MissingCustomer [''Mohon isi nama pemesan!''] u st
      else if paymentMethod u = ''Cash'' \<and> js_less (paid_amount u) (cartTotal (cart u)) then
        rejected InsufficientPayment [''Jumlah bayar kurang!''] u st
      else try_checkout f u st)"

text \<open>
  The \<open>onChange\<close> of the payment method select: it stores the method and, for a method
  other than \<open>Cash\<close>, sets the amount to the total the cart has at that moment. The
  amount field is shown for \<open>Cash\<close> only.
\<close>

definition selectPaymentMethod :: "string \<Rightarrow> ui \<Rightarrow> ui" where
  "selectPaymentMethod v u =
     (if v \<noteq> ''Cash'' then u\<lparr>paymentMethod := v, amountPaid := Entered (cartTotal (cart u))\<rparr>
      else u\<lparr>paymentMethod := v\<rparr>)"

text \<open>
  The stock update of the transaction endpoint of the SQLite server
  (src/unnamed/part_001, \<open>UPDATE products SET stock = stock - ? WHERE id = ? AND stock > -1\<close>):
  the store subtracts from the value it holds.
\<close>

definition updateStock :: "int \<Rightarrow> int \<Rightarrow> product list \<Rightarrow> product list" where
  "updateStock q productId ps =
     map (\<lambda>p. if pid p = productId \<and> stock p > -1 then p\<lparr>stock := stock p - q\<rparr> else p) ps"

section \<open>Analytics (fetchAnalytics)\<close>

text \<open>
  Both views group rows in a JavaScript object, \<open>acc[key] = (acc[key] || 0) + n\<close>, and
  read it back with \<open>Object.entries\<close>. The object is modelled as the list of its own
  properties in the order \<open>Object.entries\<close> enumerates them: the keys that are array
  indices first, in ascending numeric order, then the other keys in the order they were
  created. A key that \<open>Object.prototype\<close> defines (\<open>constructor\<close>, \<open>toString\<close>, ...)
  reads an inherited function in \<open>acc[key] || 0\<close>, and the sum turns into a string;
  the model of the products view stops there and gives no result.
\<close>

datatype key_kind = ArrayIndex int | Plain | Inherited

text \<open>A key that is not yet an own property takes its place in the enumeration order.\<close>

fun own_insert :: "('k \<Rightarrow> key_kind) \<Rightarrow> 'k \<Rightarrow> int \<Rightarrow> ('k \<times> int) list \<Rightarrow> ('k \<times> int) list" where
  "own_insert kind k v [] = [(k, v)]"
| "own_insert kind k v ((k', v') # rest) =
     (case kind k of
        ArrayIndex n \<Rightarrow>
          (case kind k' of
             ArrayIndex n' \<Rightarrow>
               if n < n' then (k, v) # (k', v') # rest
               else (k', v') # own_insert kind k v rest
           | _ \<Rightarrow> (k, v) # (k', v') # rest)
      | _ \<Rightarrow> (k', v') # own_insert kind k v rest)"

text \<open>
  \<open>acc[k] = (acc[k] || 0) + q\<close>: an own property keeps its place and gets the new sum
  (a stored 0 is falsy and reads as 0 all the same); a new key is created with \<open>0 + q\<close>.
\<close>

definition add_to_key ::
  "('k \<Rightarrow> key_kind) \<Rightarrow> ('k \<times> int) list \<Rightarrow> 'k \<Rightarrow> int \<Rightarrow> ('k \<times> int) list" where
  "add_to_key kind acc k q =
     (case map_of acc k of
        Some v \<Rightarrow> map (\<lambda>(k', v'). if k' = k then (k', v + q) else (k', v')) acc
      | None \<Rightarrow> own_insert kind k (0 + q) acc)"

definition reduce_by ::
  "('k \<Rightarrow> key_kind) \<Rightarrow> ('r \<Rightarrow> 'k) \<Rightarrow> ('r \<Rightarrow> int) \<Rightarrow> 'r list \<Rightarrow> ('k \<times> int) list" where
  "reduce_by kind key val rows =
     foldl (\<lambda>acc curr. add_to_key kind acc (key curr) (val curr)) [] rows"

text \<open>
  The daily sales. A row of the select is a pair of \<open>timestamp\<close> and \<open>total_amount\<close>.
  The key \<open>new Date(curr.timestamp).toISOString().split('T')[0]\<close> is the parameter
  \<open>iso_date\<close>: the calendar date of the timestamp as a text \<open>YYYY-MM-DD\<close>. Such a key
  is neither an array index nor a name that \<open>Object.prototype\<close> defines, so its kind is
  \<open>Plain\<close>; the order of \<open>localeCompare\<close> on such keys is the order of the dates, the
  linear order of the type \<open>'d\<close>. \<open>sort\<close> is stable, as \<open>sort_key\<close> is, and
  \<open>slice(-30)\<close> keeps the last 30 elements.
\<close>

definition formattedSales :: "('ts \<Rightarrow> 'd::linorder) \<Rightarrow> ('ts \<times> int) list \<Rightarrow> ('d \<times> int) list" where
  "formattedSales iso_date sales =
     (let groupedSales = reduce_by (\<lambda>_. Plain) (\<lambda>curr. iso_date (fst curr)) snd sales;
          ascending = sort_key fst groupedSales
      in drop (length ascending - 30) ascending)"

text \<open>
  The top products. A row of the select is a pair of \<open>product_name\<close> and \<open>quantity\<close>.
  A product name is an array index when it is the decimal numeral, without leading
  zeros, of a number below \<open>2^32 - 1\<close>.
\<close>

definition is_digit :: "char \<Rightarrow> bool" where
  "is_digit c = (48 \<le> (of_char c :: nat) \<and> (of_char c :: nat) \<le> 57)"

definition decimal_value :: "string \<Rightarrow> int" where
  "decimal_value s = foldl (\<lambda>n c. 10 * n + (of_char c - 48)) 0 s"

definition is_array_index :: "string \<Rightarrow> bool" where
  "is_array_index s =
     (s \<noteq> [] \<and> list_all is_digit s \<and> (s = ''0'' \<or> hd s \<noteq> CHR ''0'') \<and>
      decimal_value s < 4294967295)"

definition object_prototype_keys :: "string list" where
  "object_prototype_keys =
     [''constructor'', ''__defineGetter__'', ''__defineSetter__'', ''hasOwnProperty'',
      ''__lookupGetter__'', ''__lookupSetter__'', ''isPrototypeOf'', ''propertyIsEnumerable'',
      ''toString'', ''valueOf'', ''__proto__'', ''toLocaleString'']"

definition name_kind :: "string \<Rightarrow> key_kind" where
  "name_kind s =
     (if s \<in> set object_prototype_keys then Inherited
      else if is_array_index s then ArrayIndex (decimal_value s)
      else Plain)"

text \<open>
  The comparison \<open>b.total_quantity - a.total_quantity\<close> sorts by descending quantity,
  and \<open>slice(0, 10)\<close> keeps the first 10 elements.
\<close>

definition formattedProducts :: "(string \<times> int) list \<Rightarrow> (string \<times> int) list option" where
  "formattedProducts items =
     (if list_ex (\<lambda>curr. name_kind (fst curr) = Inherited) items then None
      else Some (take 10 (sort_key (\<lambda>e. - snd e) (reduce_by name_kind fst snd items))))"

text \<open>
  The sales endpoint of the SQLite server (src/unnamed/part_001,
  \<open>SELECT date(timestamp) as date, SUM(total_amount) as total FROM transactions
  GROUP BY date(timestamp) ORDER BY date ASC LIMIT 30\<close>): one row for each date with the
  sum of its totals, in ascending order of the date, the first 30 rows of that order.
\<close>

definition total_for :: "('r \<Rightarrow> 'k) \<Rightarrow> ('r \<Rightarrow> int) \<Rightarrow> 'r list \<Rightarrow> 'k \<Rightarrow> int" where
  "total_for key val rows k = (\<Sum>r\<leftarrow>rows. if key r = k then val r else 0)"

definition sales_endpoint :: "('ts \<Rightarrow> 'd::linorder) \<Rightarrow> ('ts \<times> int) list \<Rightarrow> ('d \<times> int) list" where
  "sales_endpoint date rows =
     take 30 (sort_key fst
       (map (\<lambda>d. (d, total_for (\<lambda>r. date (fst r)) snd rows d))
            (remdups (map (\<lambda>r. date (fst r)) rows))))"

section \<open>Notions of the specification and sample data\<close>

text \<open>
  The three checks at the head of \<open>handleCheckout\<close>, all passed: the cart has a line,
  the customer name has a code unit that is not white space, and for a cash payment
  \<open>paid < total\<close> is false. The numbers of a cart are exact when the absolute values of
  its products of price and quantity sum to less than \<open>2^53\<close>: then no product and no
  partial sum is rounded.
\<close>

definition exact_cart :: "cart_item list \<Rightarrow> bool" where
  "exact_cart c = ((\<Sum>item\<leftarrow>c. \<bar>price item * quantity item\<bar>) < 2 ^ 53)"

definition passes_checks :: "ui \<Rightarrow> bool" where
  "passes_checks u =
     (cart u \<noteq> [] \<and> \<not> list_all is_space (customerName u) \<and>
      \<not> (paymentMethod u = ''Cash'' \<and> js_less (paid_amount u) (cartTotal (cart u))))"

text \<open>The store after steps 1 and 2 of the checkout of \<open>u\<close> both succeeded.\<close>

definition committed :: "store \<Rightarrow> ui \<Rightarrow> store" where
  "committed st u =
     st\<lparr>transactions := transactions st @ [(next_id st, transaction_row u)],
        next_id := next_id st + 1,
        transaction_items := transaction_items st @ transactionItems (next_id st) (cart u)\<rparr>"

text \<open>
  The value an object holds for a key (0 for a key it does not have), the keys of a list
  in the order of their first occurrence, and the grouping the specification describes
  for the top products: one entry for each name, in first-encountered order, with the
  sum of the quantities of that name.
\<close>

definition value_at :: "('k \<times> int) list \<Rightarrow> 'k \<Rightarrow> int" where
  "value_at acc k = (case map_of acc k of Some v \<Rightarrow> v | None \<Rightarrow> 0)"

definition first_seen :: "'k list \<Rightarrow> 'k list" where
  "first_seen ks = rev (remdups (rev ks))"

definition grouped_spec :: "(string \<times> int) list \<Rightarrow> (string \<times> int) list" where
  "grouped_spec items =
     map (\<lambda>n. (n, total_for fst snd items n)) (first_seen (map fst items))"

text \<open>
  Four of the products the SQLite server seeds (src/unnamed/part_001, the \<open>insert.run\<close>
  lines, numbered by AUTOINCREMENT in that order), the initial state of the component
  (the \<open>useState\<close> lines of \<open>App\<close>), the code units of a text of ASCII characters, a
  store that answers no call with an error, the
  seeded store after one earlier sale, an order of two \<open>Ceker\<close> for the customer Budi,
  and the timestamps of one sale at 9 o'clock on each of the 31 days of January 2024, a
  date being a triple of year, month and day.
\<close>

definition seblak_original :: product where
  "seblak_original = \<lparr>pid = 1, name = ''Seblak Original'', category = ''Seblak'', price = 10000,
     stock = -1, image_url = Some ''https://picsum.photos/seed/seblak1/400/300''\<rparr>"

definition ceker :: product where
  "ceker = \<lparr>pid = 3, name = ''Ceker'', category = ''Topping'', price = 2000,
     stock = 50, image_url = Some ''https://picsum.photos/seed/ceker/400/300''\<rparr>"

definition es_teh_manis :: product where
  "es_teh_manis = \<lparr>pid = 8, name = ''Es Teh Manis'', category = ''Minuman'', price = 5000,
     stock = -1, image_url = Some ''https://picsum.photos/seed/esteh/400/300''\<rparr>"

definition air_mineral :: product where
  "air_mineral = \<lparr>pid = 10, name = ''Air Mineral'', category = ''Minuman'', price = 3000,
     stock = 24, image_url = Some ''https://picsum.photos/seed/water/400/300''\<rparr>"

definition seeded_store :: store where
  "seeded_store = \<lparr>products = [seblak_original, ceker, es_teh_manis, air_mineral],
     transactions = [], transaction_items = [], next_id = 1\<rparr>"

definition utf16 :: "string \<Rightarrow> nat list" where
  "utf16 s = map of_char s"

definition initial_ui :: ui where
  "initial_ui = \<lparr>cart = [], customerName = [], orderType = DineIn, amountPaid = Blank,
     paymentMethod = ''Cash'', isProcessing = False, showSuccess = False\<rparr>"

definition no_faults :: faults where
  "no_faults = \<lparr>tx_error = None, items_error = None, stock_error = []\<rparr>"

definition store_with_sale :: store where
  "store_with_sale = seeded_store
     \<lparr>transactions := [(1, \<lparr>total_amount = Some 5000, customer_name = utf16 ''Ani'',
                            order_type = TakeAway, amount_paid = Some 5000,
                            change_amount = Some 0, payment_method = ''QRIS''\<rparr>)],
      transaction_items := [\<lparr>transaction_id = 1, product_id = 8, product_name = ''Es Teh Manis'',
                             row_quantity = 1, row_price = 5000\<rparr>],
      next_id := 2\<rparr>"

definition budi_order :: ui where
  "budi_order = initial_ui\<lparr>cart := [with_quantity ceker 2], customerName := utf16 ''Budi''\<rparr>"

definition january :: "((nat \<times> nat \<times> nat) \<times> nat) list" where
  "january = map (\<lambda>d. ((2024, 1, d), 9)) [1..<32]"

section \<open>Lemmas about the numbers\<close>

declare bit_length.simps [simp del]

lemma bit_length_le: "m < 2 ^ k \<Longrightarrow> bit_length m \<le> k"
proof (induction k arbitrary: m)
  case 0
  then show ?case by (simp add: bit_length.simps [of m])
next
  case (Suc k)
  show ?case
  proof (cases "m \<le> 0")
    case True
    then show ?thesis by (simp add: bit_length.simps [of m])
  next
    case False
    from Suc.prems have "m div 2 < 2 ^ k" by simp
    then have "bit_length (m div 2) \<le> k" by (rule Suc.IH)
    with False show ?thesis by (simp add: bit_length.simps [of m])
  qed
qed

lemma round53_small: "\<bar>x\<bar> < 2 ^ 53 \<Longrightarrow> round53 x = x"
proof -
  assume a: "\<bar>x\<bar> < 2 ^ 53"
  then have "bit_length \<bar>x\<bar> - 53 = 0"
    using bit_length_le [of "\<bar>x\<bar>" 53] by simp
  then show ?thesis
    by (simp add: round53_def Let_def)
qed

lemma to_double_small [simp]: "\<bar>x\<bar> < 2 ^ 53 \<Longrightarrow> to_double x = Fin x"
proof -
  assume a: "\<bar>x\<bar> < 2 ^ 53"
  have "(2::int) ^ 53 < 2 ^ 1024" by simp
  with a have "x < 2 ^ 1024" "- (2 ^ 1024) < x" by linarith+
  with a show ?thesis
    by (simp add: to_double_def round53_small Let_def)
qed

text \<open>Past \<open>2^53\<close> the sum is rounded: \<open>2^53 + 1\<close> is \<open>2^53\<close>, and \<open>2^53 + 3\<close> is \<open>2^53 + 4\<close>.\<close>

lemma bit_length_54:
  "bit_length 9007199254740993 = 54" "bit_length 9007199254740995 = 54"
  by (simp_all add: bit_length.simps)

lemma to_double_rounds:
  "to_double 9007199254740993 = Fin 9007199254740992"
  "to_double 9007199254740995 = Fin 9007199254740996"
  by (simp_all add: to_double_def round53_def Let_def bit_length_54)

lemma js_less_irrefl: "\<not> js_less x x"
  by (cases x) simp_all

lemma cartTotal_from:
  "\<bar>a\<bar> + (\<Sum>item\<leftarrow>c. \<bar>price item * quantity item\<bar>) < 2 ^ 53 \<Longrightarrow>
   foldl (\<lambda>sum item. js_add sum (to_double (price item * quantity item))) (Fin a) c =
     Fin (a + (\<Sum>item\<leftarrow>c. price item * quantity item))"
proof (induction c arbitrary: a)
  case Nil
  then show ?case by simp
next
  case (Cons item c)
  let ?p = "price item * quantity item"
  have n: "0 \<le> (\<Sum>item\<leftarrow>c. \<bar>price item * quantity item\<bar>)"
    by (rule sum_list_nonneg) auto
  from Cons.prems n have p: "\<bar>?p\<bar> < 2 ^ 53" and s: "\<bar>a + ?p\<bar> < 2 ^ 53"
    and r: "\<bar>a + ?p\<bar> + (\<Sum>item\<leftarrow>c. \<bar>price item * quantity item\<bar>) < 2 ^ 53"
    by simp_all
  have "js_add (Fin a) (to_double ?p) = Fin (a + ?p)"
    using p s by simp
  then show ?case
    using Cons.IH [OF r] by (simp add: add.assoc)
qed

lemma cartTotal_exact:
  "exact_cart c \<Longrightarrow> cartTotal c = Fin (\<Sum>item\<leftarrow>c. price item * quantity item)"
  using cartTotal_from [of 0 c] by (simp add: exact_cart_def cartTotal_def)

section \<open>Theorems about the cart\<close>

lemmas sample_defs = seblak_original_def ceker_def es_teh_manis_def air_mineral_def
  seeded_store_def initial_ui_def no_faults_def with_quantity_def store_with_sale_def
  budi_order_def utf16_def

lemmas checkout_defs = handleCheckout_def try_checkout_def rejected_def checkout_failed_def
  insert_transaction_def insert_items_def update_stock_def transaction_row_def
  transactionItems_def paid_amount_def cartTotal_def trim_def is_space_def reset_ui_def
  js_sub_def

lemmas name_kind_defs = name_kind_def is_array_index_def object_prototype_keys_def
  is_digit_def decimal_value_def

text \<open>
  What \<open>addToCart\<close> does to a cart: nothing for a stock-limited product without
  stock, one more unit on the line of the product when there is one, and else a new last
  line with quantity 1 that carries the fields of the product, its price and stock
  included, as they are at that moment.
\<close>

lemma addToCart_lines:
  "addToCart p c =
     (if stock p \<noteq> -1 \<and> stock p \<le> 0 then c
      else if \<exists>item \<in> set c. pid item = pid p then
        map (\<lambda>item. if pid item = pid p then item\<lparr>quantity := quantity item + 1\<rparr> else item) c
      else c @ [with_quantity p 1])"
proof (cases "find (\<lambda>item. pid item = pid p) c")
  case None
  then have "\<not> (\<exists>item \<in> set c. pid item = pid p)"
    unfolding find_None_iff by blast
  with None show ?thesis by (simp add: addToCart_def)
next
  case (Some existing)
  then have "\<exists>item \<in> set c. pid item = pid p"
    unfolding find_Some_iff by (metis nth_mem)
  with Some show ?thesis by (simp add: addToCart_def)
qed

text \<open>
  C4. The specification: after any sequence of cart operations every stock-limited line
  has a quantity within the stock ceiling of the line. The code at a failing input: the product
  \<open>Ceker\<close> with one unit in stock, added twice. The second \<open>addToCart\<close> finds the
  line and adds one unit without looking at the ceiling, so the line holds 2 of a stock
  of 1. \<open>updateQuantity\<close> on the same line (the plus button of the cart) does look at
  the ceiling and leaves the quantity at 1.
\<close>

theorem add_exceeds_ceiling:
  "run_cart_ops [Add (ceker\<lparr>stock := 1\<rparr>), Add (ceker\<lparr>stock := 1\<rparr>)]
     = [with_quantity (ceker\<lparr>stock := 1\<rparr>) 2] \<and>
   \<not> within_ceiling (with_quantity (ceker\<lparr>stock := 1\<rparr>) 2) \<and>
   run_cart_ops [Add (ceker\<lparr>stock := 1\<rparr>), SetQuantity 3 1]
     = [with_quantity (ceker\<lparr>stock := 1\<rparr>) 1]"
  by (simp add: run_cart_ops_def addToCart_def updateQuantity_def updateLine_def
        within_ceiling_def sample_defs)

text \<open>
  C8. \<open>updateQuantity productId delta\<close> keeps the number and order of the cart lines,
  leaves every line of another product as it is, and on a line of the product sets the
  quantity to \<open>max 1 (current + delta)\<close>, all other fields unchanged, except that a
  positive delta on a stock-limited line whose new quantity would exceed the snapshot
  stock ceiling leaves the line as it is. A line never gets a quantity below 1, and a line
  with quantity at least 1 keeps one.
\<close>

theorem updateQuantity_spec:
  "length (updateQuantity productId delta c) = length c \<and>
   (\<forall>i < length c.
      let item = c ! i; item' = updateQuantity productId delta c ! i in
      (pid item \<noteq> productId \<longrightarrow> item' = item) \<and>
      (pid item = productId \<and> delta > 0 \<and> stock item \<noteq> -1 \<and>
         max 1 (quantity item + delta) > stock item \<longrightarrow> item' = item) \<and>
      (pid item = productId \<and>
         \<not> (delta > 0 \<and> stock item \<noteq> -1 \<and> max 1 (quantity item + delta) > stock item) \<longrightarrow>
         item' = item\<lparr>quantity := max 1 (quantity item + delta)\<rparr> \<and> quantity item' \<ge> 1) \<and>
      (quantity item \<ge> 1 \<longrightarrow> quantity item' \<ge> 1))"
  by (simp add: updateQuantity_def updateLine_def Let_def)

theorem updateQuantity_spec_witness:
  "updateQuantity 3 5 [with_quantity (ceker\<lparr>stock := 3\<rparr>) 2, with_quantity es_teh_manis 1]
     = [with_quantity (ceker\<lparr>stock := 3\<rparr>) 2, with_quantity es_teh_manis 1] \<and>
   updateQuantity 3 1 [with_quantity (ceker\<lparr>stock := 3\<rparr>) 2, with_quantity es_teh_manis 1]
     = [with_quantity (ceker\<lparr>stock := 3\<rparr>) 3, with_quantity es_teh_manis 1] \<and>
   updateQuantity 8 (-4) [with_quantity (ceker\<lparr>stock := 3\<rparr>) 2, with_quantity es_teh_manis 3]
     = [with_quantity (ceker\<lparr>stock := 3\<rparr>) 2, with_quantity es_teh_manis 1]"
  using
    updateQuantity_spec
      [of 3 5 "[with_quantity (ceker\<lparr>stock := 3\<rparr>) 2, with_quantity es_teh_manis 1]"]
    updateQuantity_spec
      [of 3 1 "[with_quantity (ceker\<lparr>stock := 3\<rparr>) 2, with_quantity es_teh_manis 1]"]
    updateQuantity_spec
      [of 8 "-4" "[with_quantity (ceker\<lparr>stock := 3\<rparr>) 2, with_quantity es_teh_manis 3]"]
  by (simp add: updateQuantity_def updateLine_def sample_defs)

section \<open>Lemmas about the checkout\<close>

lemma trim_Nil_iff: "trim s = [] \<longleftrightarrow> list_all is_space s"
proof -
  have "trim s = [] \<longleftrightarrow> (\<forall>c \<in> set (dropWhile is_space s). is_space c)"
    by (simp add: trim_def dropWhile_eq_Nil_conv)
  also have "\<dots> \<longleftrightarrow> dropWhile is_space s = []"
    by (metis dropWhile_eq_Nil_conv dropWhile_idem)
  also have "\<dots> \<longleftrightarrow> list_all is_space s"
    by (simp add: dropWhile_eq_Nil_conv list_all_iff)
  finally show ?thesis .
qed

lemma update_stocks_calls:
  "fst (snd (update_stocks f c (st, cs, lg))) =
     cs @ map (\<lambda>item. UpdateStock (pid item) (stock item - quantity item))
            (filter (\<lambda>item. stock item \<noteq> -1) c)"
  by (induction c arbitrary: st cs lg) (auto split: prod.splits)

lemma update_stocks_console:
  "snd (snd (update_stocks f c (st, cs, lg))) =
     lg @ concat (map (\<lambda>item. case map_of (stock_error f) (pid item) of
                                Some msg \<Rightarrow> [StockUpdateFailed (pid item) msg] | None \<Rightarrow> [])
               (filter (\<lambda>item. stock item \<noteq> -1) c))"
  by (induction c arbitrary: st cs lg) (auto simp: update_stock_def split: prod.splits option.splits)

lemma update_stocks_tables:
  "transactions (fst (update_stocks f c (st, cs, lg))) = transactions st \<and>
   transaction_items (fst (update_stocks f c (st, cs, lg))) = transaction_items st \<and>
   next_id (fst (update_stocks f c (st, cs, lg))) = next_id st"
  by (induction c arbitrary: st cs lg) (auto simp: update_stock_def split: prod.splits option.splits)

lemma update_stocks_products:
  "distinct (map pid c) \<Longrightarrow>
   products (fst (update_stocks f c (st, cs, lg))) =
     map (\<lambda>p. case find (\<lambda>item. pid item = pid p \<and> stock item \<noteq> -1 \<and>
                                 map_of (stock_error f) (pid item) = None) c of
                 Some item \<Rightarrow> p\<lparr>stock := stock item - quantity item\<rparr>
               | None \<Rightarrow> p) (products st)"
proof (induction c arbitrary: st cs lg)
  case Nil
  then show ?case by simp
next
  case (Cons item rest)
  have d: "distinct (map pid rest)" and n: "\<forall>x \<in> set rest. pid x \<noteq> pid item"
    using Cons.prems by (auto simp: image_iff)
  have nf: "find (\<lambda>i. pid i = pid item \<and> Q i) rest = None" for Q
    unfolding find_None_iff using n by blast
  show ?case
  proof (cases "stock item \<noteq> -1 \<and> map_of (stock_error f) (pid item) = None")
    case True
    then show ?thesis
      using Cons.IH [OF d] nf
      by (auto simp: update_stock_def intro!: map_cong split: option.splits)
  next
    case False
    then show ?thesis
      using Cons.IH [OF d]
      by (auto simp: update_stock_def intro!: map_cong split: option.splits)
  qed
qed

lemma transactionItems_sum:
  "(\<Sum>r\<leftarrow>transactionItems tid c. row_price r * row_quantity r) =
     (\<Sum>item\<leftarrow>c. price item * quantity item)"
  by (simp add: transactionItems_def comp_def)

lemma handleCheckout_passed:
  "passes_checks u \<Longrightarrow> handleCheckout f u st = try_checkout f u st"
  by (auto simp add: handleCheckout_def passes_checks_def trim_Nil_iff)

lemma try_checkout_step1_fails:
  "tx_error f = Some msg \<Longrightarrow>
   try_checkout f u st = checkout_failed msg u st [InsertTransaction (transaction_row u)]"
  by (simp add: try_checkout_def insert_transaction_def)

lemma try_checkout_step2_fails:
  "tx_error f = None \<Longrightarrow> items_error f = Some msg \<Longrightarrow>
   try_checkout f u st =
     checkout_failed msg u
       (st\<lparr>transactions := transactions st @ [(next_id st, transaction_row u)],
           next_id := next_id st + 1\<rparr>)
       [InsertTransaction (transaction_row u),
        InsertItems (transactionItems (next_id st) (cart u))]"
  by (simp add: try_checkout_def insert_transaction_def insert_items_def)

lemma try_checkout_steps12_ok:
  "tx_error f = None \<Longrightarrow> items_error f = None \<Longrightarrow>
   try_checkout f u st =
     \<lparr>result = Inr (),
      ui_after = reset_ui u,
      store_after = fst (update_stocks f (cart u) (committed st u,
          [InsertTransaction (transaction_row u),
           InsertItems (transactionItems (next_id st) (cart u))], [])),
      calls = fst (snd (update_stocks f (cart u) (committed st u,
          [InsertTransaction (transaction_row u),
           InsertItems (transactionItems (next_id st) (cart u))], [])))
          @ [SelectProducts, SelectHistory],
      alerts = [],
      console = snd (snd (update_stocks f (cart u) (committed st u,
          [InsertTransaction (transaction_row u),
           InsertItems (transactionItems (next_id st) (cart u))], [])))\<rparr>"
  by (simp add: try_checkout_def insert_transaction_def insert_items_def committed_def
        split_beta)

lemma try_checkout_first_call:
  "take 1 (calls (try_checkout f u st)) = [InsertTransaction (transaction_row u)]"
proof (cases "tx_error f")
  case (Some msg)
  then show ?thesis by (simp add: try_checkout_step1_fails checkout_failed_def)
next
  case None
  show ?thesis
  proof (cases "items_error f")
    case (Some msg)
    with None show ?thesis by (simp add: try_checkout_step2_fails checkout_failed_def)
  next
    case n2: None
    with None show ?thesis by (simp add: try_checkout_steps12_ok update_stocks_calls)
  qed
qed

section \<open>Theorems about the checkout\<close>



text \<open>
  An amount that is \<open>NaN\<close> is below no total: a cash checkout with such an amount
  passes the checks and sends \<open>null\<close> for the amount paid and for the change.
\<close>

lemma nan_amount_passes:
  "result (handleCheckout no_faults (budi_order\<lparr>amountPaid := Entered NaN\<rparr>) seeded_store)
     = Inr () \<and>
   transactions (store_after
     (handleCheckout no_faults (budi_order\<lparr>amountPaid := Entered NaN\<rparr>) seeded_store))
     = [(1, \<lparr>total_amount = Some 4000, customer_name = utf16 ''Budi'', order_type = DineIn,
             amount_paid = None, change_amount = None, payment_method = ''Cash''\<rparr>)]"
  by (simp add: sample_defs checkout_defs)

text \<open>
  C10, as amended. For a cart that is not empty and a customer name that is not blank:
  with the amount field left blank the checkout passes its checks for every payment
  method, and the row it sends as its first call to the store carries the total as the
  amount paid; when the store accepts the insert, that row is the transaction the store
  records. When the total is finite the change of that row is 0, and for a cart of exact
  numbers the total and the amount paid are the sum of price times quantity over the
  cart. The check of the
  payment applies to \<open>Cash\<close> only: with any other method the checkout passes its checks
  whatever the amount is. And selecting a method other than \<open>Cash\<close> sets the amount to
  the total of the cart at that moment, so that the amount is not blank then.
\<close>

theorem blank_tendered:
  assumes "cart u \<noteq> []" and "\<not> list_all is_space (customerName u)"
  shows "(amountPaid u = Blank \<longrightarrow>
            take 1 (calls (handleCheckout f u st)) = [InsertTransaction (transaction_row u)] \<and>
            amount_paid (transaction_row u) = total_amount (transaction_row u) \<and>
            (tx_error f = None \<longrightarrow>
               transactions (store_after (handleCheckout f u st)) =
                 transactions st @ [(next_id st, transaction_row u)])) \<and>
         (amountPaid u = Blank \<and> cartTotal (cart u) = Fin t \<longrightarrow>
            total_amount (transaction_row u) = Some t \<and>
            amount_paid (transaction_row u) = Some t \<and>
            change_amount (transaction_row u) = Some 0) \<and>
         (amountPaid u = Blank \<and> exact_cart (cart u) \<longrightarrow>
            total_amount (transaction_row u) =
              Some (\<Sum>item\<leftarrow>cart u. price item * quantity item) \<and>
            amount_paid (transaction_row u) =
              Some (\<Sum>item\<leftarrow>cart u. price item * quantity item) \<and>
            change_amount (transaction_row u) = Some 0) \<and>
         (paymentMethod u \<noteq> ''Cash'' \<longrightarrow>
            take 1 (calls (handleCheckout f u st)) = [InsertTransaction (transaction_row u)]) \<and>
         (v \<noteq> ''Cash'' \<longrightarrow>
            paymentMethod (selectPaymentMethod v u) = v \<and>
            amountPaid (selectPaymentMethod v u) = Entered (cartTotal (cart u)))"
proof -
  have p: "passes_checks u" if "amountPaid u = Blank \<or> paymentMethod u \<noteq> ''Cash''"
    using assms that by (auto simp add: passes_checks_def paid_amount_def js_less_irrefl)
  have c: "take 1 (calls (handleCheckout f u st)) = [InsertTransaction (transaction_row u)]"
    if "amountPaid u = Blank \<or> paymentMethod u \<noteq> ''Cash''"
    using try_checkout_first_call [of f u st] by (simp add: handleCheckout_passed [OF p [OF that]])
  have t: "transactions (store_after (handleCheckout f u st)) =
             transactions st @ [(next_id st, transaction_row u)]"
    if b: "amountPaid u = Blank" and ok: "tx_error f = None"
  proof (cases "items_error f")
    case None
    with ok show ?thesis
      by (simp add: handleCheckout_passed [OF p] b try_checkout_steps12_ok update_stocks_tables
            committed_def)
  next
    case (Some msg)
    with ok show ?thesis
      by (simp add: handleCheckout_passed [OF p] b try_checkout_step2_fails checkout_failed_def)
  qed
  have r: "amount_paid (transaction_row u) = total_amount (transaction_row u)"
    if "amountPaid u = Blank"
    using that by (simp add: transaction_row_def paid_amount_def)
  have x: "total_amount (transaction_row u) =
              Some (\<Sum>item\<leftarrow>cart u. price item * quantity item) \<and>
           amount_paid (transaction_row u) =
              Some (\<Sum>item\<leftarrow>cart u. price item * quantity item) \<and>
           change_amount (transaction_row u) = Some 0"
    if "amountPaid u = Blank" and "exact_cart (cart u)"
    using that by (simp add: transaction_row_def paid_amount_def cartTotal_exact js_sub_def)
  have y: "total_amount (transaction_row u) = Some t \<and>
           amount_paid (transaction_row u) = Some t \<and>
           change_amount (transaction_row u) = Some 0"
    if "amountPaid u = Blank" and "cartTotal (cart u) = Fin t"
  proof -
    have "to_double 0 = Fin 0" by simp
    with that show ?thesis
      by (simp add: transaction_row_def paid_amount_def js_sub_def)
  qed
  have s: "paymentMethod (selectPaymentMethod v u) = v \<and>
           amountPaid (selectPaymentMethod v u) = Entered (cartTotal (cart u))"
    if "v \<noteq> ''Cash''"
    using that by (simp add: selectPaymentMethod_def)
  show ?thesis
    using c t r x y s by blast
qed

theorem blank_tendered_witness:
  "calls (handleCheckout no_faults (budi_order\<lparr>paymentMethod := ''QRIS''\<rparr>) seeded_store) ! 0 =
     InsertTransaction \<lparr>total_amount = Some 4000, customer_name = utf16 ''Budi'',
       order_type = DineIn, amount_paid = Some 4000, change_amount = Some 0,
       payment_method = ''QRIS''\<rparr> \<and>
   transactions (store_after (handleCheckout no_faults budi_order seeded_store)) =
     [(1, \<lparr>total_amount = Some 4000, customer_name = utf16 ''Budi'', order_type = DineIn,
            amount_paid = Some 4000, change_amount = Some 0, payment_method = ''Cash''\<rparr>)] \<and>
   exact_cart (cart budi_order) \<and>
   calls (handleCheckout no_faults
     (budi_order\<lparr>paymentMethod := ''QRIS'', amountPaid := Entered (Fin 1000)\<rparr>) seeded_store) ! 0 =
     InsertTransaction \<lparr>total_amount = Some 4000, customer_name = utf16 ''Budi'',
       order_type = DineIn, amount_paid = Some 1000, change_amount = Some 0,
       payment_method = ''QRIS''\<rparr> \<and>
   amountPaid (selectPaymentMethod ''QRIS'' budi_order) = Entered (Fin 4000)"
proof -
  have n: "cart budi_order \<noteq> []" "\<not> list_all is_space (customerName budi_order)"
    by (simp_all add: sample_defs is_space_def)
  have e: "exact_cart (cart budi_order)"
    by (simp add: sample_defs exact_cart_def)
  from
    blank_tendered
      [where u = "budi_order\<lparr>paymentMethod := ''QRIS''\<rparr>" and f = no_faults
         and st = seeded_store and v = "''QRIS''" and t = 4000]
    blank_tendered
      [where u = budi_order and f = no_faults and st = seeded_store and v = "''QRIS''"
         and t = 4000]
    blank_tendered
      [where u = "budi_order\<lparr>paymentMethod := ''QRIS'', amountPaid := Entered (Fin 1000)\<rparr>"
         and f = no_faults and st = seeded_store and v = "''QRIS''" and t = 4000]
    n e
  show ?thesis
    by (simp add: sample_defs checkout_defs selectPaymentMethod_def)
qed

text \<open>
  C10, as the specification states it, fails: it is not the default of a blank amount
  that lets a checkout with a method other than \<open>Cash\<close> pass. The method \<open>QRIS\<close>
  selected on the empty cart sets the amount to 0; with two \<open>Ceker\<close> then put into the
  cart the amount is entered, not blank, and below the total of 4000, and the checkout
  succeeds all the same, recording 0 as the amount paid.
\<close>

theorem noncash_passes_below_total:
  "amountPaid (selectPaymentMethod ''QRIS'' initial_ui) = Entered (Fin 0) \<and>
   result (handleCheckout no_faults
     ((selectPaymentMethod ''QRIS'' initial_ui)
        \<lparr>cart := run_cart_ops [Add ceker, Add ceker], customerName := utf16 ''Budi''\<rparr>)
     seeded_store) = Inr () \<and>
   transactions (store_after (handleCheckout no_faults
     ((selectPaymentMethod ''QRIS'' initial_ui)
        \<lparr>cart := run_cart_ops [Add ceker, Add ceker], customerName := utf16 ''Budi''\<rparr>)
     seeded_store)) =
     [(1, \<lparr>total_amount = Some 4000, customer_name = utf16 ''Budi'', order_type = DineIn,
            amount_paid = Some 0, change_amount = Some 0, payment_method = ''QRIS''\<rparr>)]"
  by (simp add: sample_defs checkout_defs selectPaymentMethod_def run_cart_ops_def
        addToCart_def)

text \<open>
  C5. When the checks pass, the store accepts steps 1 and 2 and the cart is one of exact
  numbers, the store gains one transaction whose total is the sum of price times
  quantity over the cart. With the amount field blank its amount paid is that total and
  its change is 0; with an integer \<open>a\<close> entered, within \<open>2^53\<close> of the total, its amount
  paid is \<open>a\<close> and its change is \<open>max 0 (a - total)\<close>; with \<open>NaN\<close> entered both are
  \<open>null\<close>. The store gains one item row for each cart line, in order, with the id of
  that transaction and the product id, name, price and quantity of the line; price times
  quantity summed over these rows is the total of the transaction. The instance that
  follows is the cart of the specification's example: two units at 10000 and one at 5000,
  paid in cash with 30000, give total 25000, change 5000 and two item rows.
\<close>

theorem checkout_round_trip:
  assumes "passes_checks u" and "tx_error f = None" and "items_error f = None"
    and "exact_cart (cart u)"
  shows "\<exists>row rows.
           transactions (store_after (handleCheckout f u st)) =
             transactions st @ [(next_id st, row)] \<and>
           transaction_items (store_after (handleCheckout f u st)) =
             transaction_items st @ rows \<and>
           total_amount row = Some (\<Sum>item\<leftarrow>cart u. price item * quantity item) \<and>
           (amountPaid u = Blank \<longrightarrow>
              amount_paid row = Some (\<Sum>item\<leftarrow>cart u. price item * quantity item) \<and>
              change_amount row = Some 0) \<and>
           (\<forall>a. amountPaid u = Entered (Fin a) \<and>
                \<bar>a - (\<Sum>item\<leftarrow>cart u. price item * quantity item)\<bar> < 2 ^ 53 \<longrightarrow>
              amount_paid row = Some a \<and>
              change_amount row =
                Some (max 0 (a - (\<Sum>item\<leftarrow>cart u. price item * quantity item)))) \<and>
           (amountPaid u = Entered NaN \<longrightarrow> amount_paid row = None \<and> change_amount row = None) \<and>
           customer_name row = customerName u \<and>
           order_type row = orderType u \<and>
           payment_method row = paymentMethod u \<and>
           length rows = length (cart u) \<and>
           map transaction_id rows = replicate (length (cart u)) (next_id st) \<and>
           map product_id rows = map pid (cart u) \<and>
           map product_name rows = map name (cart u) \<and>
           map row_price rows = map price (cart u) \<and>
           map row_quantity rows = map quantity (cart u) \<and>
           (\<Sum>r\<leftarrow>rows. row_price r * row_quantity r) =
             (\<Sum>item\<leftarrow>cart u. price item * quantity item)"
proof -
  let ?row = "transaction_row u" and ?rows = "transactionItems (next_id st) (cart u)"
  let ?t = "\<Sum>item\<leftarrow>cart u. price item * quantity item"
  have t: "cartTotal (cart u) = Fin ?t"
    using assms(4) by (rule cartTotal_exact)
  have 1: "transactions (store_after (handleCheckout f u st)) =
             transactions st @ [(next_id st, ?row)]"
    and 2: "transaction_items (store_after (handleCheckout f u st)) =
             transaction_items st @ ?rows"
    using assms(1-3)
    by (simp_all add: handleCheckout_passed try_checkout_steps12_ok update_stocks_tables
          committed_def)
  have 3: "total_amount ?row = Some ?t"
    by (simp add: transaction_row_def t)
  have 4: "amount_paid ?row = Some ?t \<and> change_amount ?row = Some 0"
    if "amountPaid u = Blank"
    using that by (simp add: transaction_row_def paid_amount_def t js_sub_def)
  have 5: "amount_paid ?row = Some a \<and> change_amount ?row = Some (max 0 (a - ?t))"
    if "amountPaid u = Entered (Fin a)" and "\<bar>a - ?t\<bar> < 2 ^ 53" for a
    using that by (simp add: transaction_row_def paid_amount_def t js_sub_def max_def)
  have 6: "amount_paid ?row = None \<and> change_amount ?row = None"
    if "amountPaid u = Entered NaN"
    using that by (simp add: transaction_row_def paid_amount_def t js_sub_def)
  have 7: "customer_name ?row = customerName u \<and> order_type ?row = orderType u \<and>
           payment_method ?row = paymentMethod u"
    by (simp add: transaction_row_def)
  have 8: "length ?rows = length (cart u) \<and>
           map transaction_id ?rows = replicate (length (cart u)) (next_id st) \<and>
           map product_id ?rows = map pid (cart u) \<and>
           map product_name ?rows = map name (cart u) \<and>
           map row_price ?rows = map price (cart u) \<and>
           map row_quantity ?rows = map quantity (cart u)"
    by (simp add: transactionItems_def comp_def map_replicate_const)
  have 9: "(\<Sum>r\<leftarrow>?rows. row_price r * row_quantity r) = ?t"
    by (rule transactionItems_sum)
  show ?thesis
    using 1 2 3 4 5 6 7 8 9 by blast
qed

theorem checkout_round_trip_witness:
  "passes_checks
     (initial_ui\<lparr>cart := [with_quantity seblak_original 2, with_quantity es_teh_manis 1],
        customerName := utf16 ''Budi'', amountPaid := Entered (Fin 30000)\<rparr>) \<and>
   exact_cart [with_quantity seblak_original 2, with_quantity es_teh_manis 1] \<and>
   transactions (store_after (handleCheckout no_faults
     (initial_ui\<lparr>cart := [with_quantity seblak_original 2, with_quantity es_teh_manis 1],
        customerName := utf16 ''Budi'', amountPaid := Entered (Fin 30000)\<rparr>) seeded_store)) =
   [(1, \<lparr>total_amount = Some 25000, customer_name = utf16 ''Budi'', order_type = DineIn,
        amount_paid = Some 30000, change_amount = Some 5000, payment_method = ''Cash''\<rparr>)] \<and>
   transaction_items (store_after (handleCheckout no_faults
     (initial_ui\<lparr>cart := [with_quantity seblak_original 2, with_quantity es_teh_manis 1],
        customerName := utf16 ''Budi'', amountPaid := Entered (Fin 30000)\<rparr>) seeded_store)) =
   [\<lparr>transaction_id = 1, product_id = 1, product_name = ''Seblak Original'',
      row_quantity = 2, row_price = 10000\<rparr>,
    \<lparr>transaction_id = 1, product_id = 8, product_name = ''Es Teh Manis'',
      row_quantity = 1, row_price = 5000\<rparr>] \<and>
   10000 * 2 + 5000 * 1 = (25000 :: int)"
proof -
  let ?u = "initial_ui\<lparr>cart := [with_quantity seblak_original 2, with_quantity es_teh_manis 1],
        customerName := utf16 ''Budi'', amountPaid := Entered (Fin 30000)\<rparr>"
  have p: "passes_checks ?u"
    by (simp add: passes_checks_def sample_defs paid_amount_def cartTotal_def is_space_def)
  have f: "tx_error no_faults = None" "items_error no_faults = None"
    by (simp_all add: no_faults_def)
  have e: "exact_cart (cart ?u)"
    by (simp add: sample_defs exact_cart_def)
  from checkout_round_trip [OF p f e, of seeded_store] p e show ?thesis
    by (simp add: sample_defs checkout_defs)
qed

text \<open>
  C6. When the checks pass and the store accepts steps 1 and 2, the checkout succeeds
  whatever the store answers to the stock updates: no alert is raised, the cart is
  cleared and the success flag set, the transaction and its item rows stay in the store,
  one stock update is issued for every stock-limited line of the cart, in order, each
  refused update is logged with the id of its product, and (for a cart with distinct
  products) every product whose update the store accepted holds the value written,
  while all others keep their stock.
\<close>

theorem stock_failure_not_fatal:
  assumes "passes_checks u" and "tx_error f = None" and "items_error f = None"
  shows "result (handleCheckout f u st) = Inr () \<and>
         alerts (handleCheckout f u st) = [] \<and>
         cart (ui_after (handleCheckout f u st)) = [] \<and>
         showSuccess (ui_after (handleCheckout f u st)) \<and>
         transactions (store_after (handleCheckout f u st)) =
           transactions st @ [(next_id st, transaction_row u)] \<and>
         transaction_items (store_after (handleCheckout f u st)) =
           transaction_items st @ transactionItems (next_id st) (cart u) \<and>
         calls (handleCheckout f u st) =
           [InsertTransaction (transaction_row u),
            InsertItems (transactionItems (next_id st) (cart u))] @
           map (\<lambda>item. UpdateStock (pid item) (stock item - quantity item))
             (filter (\<lambda>item. stock item \<noteq> -1) (cart u)) @
           [SelectProducts, SelectHistory] \<and>
         console (handleCheckout f u st) =
           concat (map (\<lambda>item. case map_of (stock_error f) (pid item) of
                                  Some msg \<Rightarrow> [StockUpdateFailed (pid item) msg]
                                | None \<Rightarrow> [])
                     (filter (\<lambda>item. stock item \<noteq> -1) (cart u))) \<and>
         (distinct (map pid (cart u)) \<longrightarrow>
            products (store_after (handleCheckout f u st)) =
              map (\<lambda>p. case find (\<lambda>item. pid item = pid p \<and> stock item \<noteq> -1 \<and>
                                          map_of (stock_error f) (pid item) = None) (cart u) of
                          Some item \<Rightarrow> p\<lparr>stock := stock item - quantity item\<rparr>
                        | None \<Rightarrow> p) (products st))"
  using assms
  by (simp add: handleCheckout_passed try_checkout_steps12_ok update_stocks_calls
        update_stocks_console update_stocks_tables update_stocks_products
        committed_def reset_ui_def)

theorem stock_failure_not_fatal_witness:
  "passes_checks (initial_ui\<lparr>cart := [with_quantity ceker 2, with_quantity air_mineral 1],
      customerName := utf16 ''Budi''\<rparr>) \<and>
   result (handleCheckout (no_faults\<lparr>stock_error := [(3, ''Failed to fetch'')]\<rparr>)
     (initial_ui\<lparr>cart := [with_quantity ceker 2, with_quantity air_mineral 1],
        customerName := utf16 ''Budi''\<rparr>) seeded_store) = Inr () \<and>
   cart (ui_after (handleCheckout (no_faults\<lparr>stock_error := [(3, ''Failed to fetch'')]\<rparr>)
     (initial_ui\<lparr>cart := [with_quantity ceker 2, with_quantity air_mineral 1],
        customerName := utf16 ''Budi''\<rparr>) seeded_store)) = [] \<and>
   console (handleCheckout (no_faults\<lparr>stock_error := [(3, ''Failed to fetch'')]\<rparr>)
     (initial_ui\<lparr>cart := [with_quantity ceker 2, with_quantity air_mineral 1],
        customerName := utf16 ''Budi''\<rparr>) seeded_store) = [StockUpdateFailed 3 ''Failed to fetch''] \<and>
   map stock (products (store_after (handleCheckout (no_faults\<lparr>stock_error := [(3, ''Failed to fetch'')]\<rparr>)
     (initial_ui\<lparr>cart := [with_quantity ceker 2, with_quantity air_mineral 1],
        customerName := utf16 ''Budi''\<rparr>) seeded_store))) = [-1, 50, -1, 23] \<and>
   length (transaction_items (store_after (handleCheckout (no_faults\<lparr>stock_error := [(3, ''Failed to fetch'')]\<rparr>)
     (initial_ui\<lparr>cart := [with_quantity ceker 2, with_quantity air_mineral 1],
        customerName := utf16 ''Budi''\<rparr>) seeded_store))) = 2"
proof -
  let ?u = "initial_ui\<lparr>cart := [with_quantity ceker 2, with_quantity air_mineral 1],
      customerName := utf16 ''Budi''\<rparr>"
  let ?f = "no_faults\<lparr>stock_error := [(3, ''Failed to fetch'')]\<rparr>"
  have p: "passes_checks ?u"
    by (simp add: passes_checks_def sample_defs paid_amount_def cartTotal_def is_space_def)
  have f: "tx_error ?f = None" "items_error ?f = None"
    by (simp_all add: no_faults_def)
  from stock_failure_not_fatal [OF p f, of seeded_store] p show ?thesis
    by (simp add: sample_defs transactionItems_def)
qed

text \<open>
  C2, as amended. The code has one \<open>catch\<close> block for the whole \<open>try\<close> block, so a
  failure of step 2 is reported as a failure of step 1 is: the error carries the message
  of the store and the alert is \<open>Checkout gagal: \<close> followed by that message. When
  step 1 fails, that single call is the only one issued and the store is as it was.
  When step 1 succeeds and step 2 fails, the calls issued are the two inserts and no
  stock update, the cart and the rest of the form are kept, the store has gained the
  transaction of step 1 and no item row, and its products are as they were; when no
  earlier item row carries the id assigned in step 1, the new transaction has no item
  row at all.
\<close>

theorem store_failure_outcomes:
  assumes "passes_checks u"
  shows "(tx_error f = Some msg \<longrightarrow>
            result (handleCheckout f u st) = Inl (CheckoutFailed msg) \<and>
            alerts (handleCheckout f u st) = [''Checkout gagal: '' @ msg] \<and>
            calls (handleCheckout f u st) = [InsertTransaction (transaction_row u)] \<and>
            store_after (handleCheckout f u st) = st \<and>
            ui_after (handleCheckout f u st) = u\<lparr>isProcessing := False\<rparr>) \<and>
         (tx_error f = None \<and> items_error f = Some msg \<longrightarrow>
            result (handleCheckout f u st) = Inl (CheckoutFailed msg) \<and>
            alerts (handleCheckout f u st) = [''Checkout gagal: '' @ msg] \<and>
            calls (handleCheckout f u st) =
              [InsertTransaction (transaction_row u),
               InsertItems (transactionItems (next_id st) (cart u))] \<and>
            ui_after (handleCheckout f u st) = u\<lparr>isProcessing := False\<rparr> \<and>
            transactions (store_after (handleCheckout f u st)) =
              transactions st @ [(next_id st, transaction_row u)] \<and>
            transaction_items (store_after (handleCheckout f u st)) = transaction_items st \<and>
            products (store_after (handleCheckout f u st)) = products st \<and>
            ((\<forall>r \<in> set (transaction_items st). transaction_id r \<noteq> next_id st) \<longrightarrow>
               filter (\<lambda>r. transaction_id r = next_id st)
                 (transaction_items (store_after (handleCheckout f u st))) = []))"
  using assms
  by (auto simp add: handleCheckout_passed try_checkout_step1_fails try_checkout_step2_fails
        checkout_failed_def filter_empty_conv)

theorem store_failure_outcomes_witness:
  "passes_checks budi_order \<and>
   result (handleCheckout (no_faults\<lparr>tx_error := Some ''Failed to fetch''\<rparr>)
     budi_order store_with_sale) = Inl (CheckoutFailed ''Failed to fetch'') \<and>
   store_after (handleCheckout (no_faults\<lparr>tx_error := Some ''Failed to fetch''\<rparr>)
     budi_order store_with_sale) = store_with_sale \<and>
   result (handleCheckout (no_faults\<lparr>items_error := Some ''Failed to fetch''\<rparr>)
     budi_order store_with_sale) = Inl (CheckoutFailed ''Failed to fetch'') \<and>
   cart (ui_after (handleCheckout (no_faults\<lparr>items_error := Some ''Failed to fetch''\<rparr>)
     budi_order store_with_sale)) = [with_quantity ceker 2] \<and>
   map fst (transactions (store_after
     (handleCheckout (no_faults\<lparr>items_error := Some ''Failed to fetch''\<rparr>)
        budi_order store_with_sale))) = [1, 2] \<and>
   map transaction_id (transaction_items (store_after
     (handleCheckout (no_faults\<lparr>items_error := Some ''Failed to fetch''\<rparr>)
        budi_order store_with_sale))) = [1] \<and>
   filter (\<lambda>r. transaction_id r = 2) (transaction_items (store_after
     (handleCheckout (no_faults\<lparr>items_error := Some ''Failed to fetch''\<rparr>)
        budi_order store_with_sale))) = [] \<and>
   stock_of (store_after (handleCheckout (no_faults\<lparr>items_error := Some ''Failed to fetch''\<rparr>)
     budi_order store_with_sale)) 3 = Some 50"
proof -
  have p: "passes_checks budi_order"
    by (simp add: passes_checks_def sample_defs paid_amount_def cartTotal_def is_space_def)
  have n: "next_id store_with_sale = 2"
    "\<forall>r \<in> set (transaction_items store_with_sale). transaction_id r \<noteq> 2"
    by (simp_all add: sample_defs)
  from
    store_failure_outcomes
      [OF p, of "no_faults\<lparr>tx_error := Some ''Failed to fetch''\<rparr>" "''Failed to fetch''"
         store_with_sale]
    store_failure_outcomes
      [OF p, of "no_faults\<lparr>items_error := Some ''Failed to fetch''\<rparr>" "''Failed to fetch''"
         store_with_sale]
    p n
  show ?thesis
    by (simp add: sample_defs stock_of_def)
qed

text \<open>
  C2, as the specification states it, fails: with the store answering \<open>Failed to fetch\<close> to the
  insert of the item rows, the checkout returns the same error, raises the same alert,
  writes the same log entry and leaves the same state of the component as with the store
  answering \<open>Failed to fetch\<close> to the insert of the transaction. Only the store
  differs: it has gained a transaction in the first case and none in the second.
\<close>

theorem partial_commit_not_distinct:
  "result (handleCheckout (no_faults\<lparr>items_error := Some ''Failed to fetch''\<rparr>)
     budi_order store_with_sale)
   = result (handleCheckout (no_faults\<lparr>tx_error := Some ''Failed to fetch''\<rparr>)
     budi_order store_with_sale) \<and>
   result (handleCheckout (no_faults\<lparr>items_error := Some ''Failed to fetch''\<rparr>)
     budi_order store_with_sale) = Inl (CheckoutFailed ''Failed to fetch'') \<and>
   alerts (handleCheckout (no_faults\<lparr>items_error := Some ''Failed to fetch''\<rparr>)
     budi_order store_with_sale)
   = alerts (handleCheckout (no_faults\<lparr>tx_error := Some ''Failed to fetch''\<rparr>)
     budi_order store_with_sale) \<and>
   console (handleCheckout (no_faults\<lparr>items_error := Some ''Failed to fetch''\<rparr>)
     budi_order store_with_sale)
   = console (handleCheckout (no_faults\<lparr>tx_error := Some ''Failed to fetch''\<rparr>)
     budi_order store_with_sale) \<and>
   ui_after (handleCheckout (no_faults\<lparr>items_error := Some ''Failed to fetch''\<rparr>)
     budi_order store_with_sale)
   = ui_after (handleCheckout (no_faults\<lparr>tx_error := Some ''Failed to fetch''\<rparr>)
     budi_order store_with_sale) \<and>
   map fst (transactions (store_after
     (handleCheckout (no_faults\<lparr>items_error := Some ''Failed to fetch''\<rparr>)
        budi_order store_with_sale))) = [1, 2] \<and>
   map fst (transactions (store_after
     (handleCheckout (no_faults\<lparr>tx_error := Some ''Failed to fetch''\<rparr>)
        budi_order store_with_sale))) = [1]"
  by (simp add: sample_defs checkout_defs)

text \<open>
  C1. The specification: the stock update is a decrement relative to the value the store holds,
  so that two checkouts of one unit each take a stock of 10 to 8. The code at a failing
  input: two terminals that both loaded \<open>Ceker\<close> with stock 10 and put one unit in
  their carts check out one after the other. Each writes the absolute value
  \<open>item.stock - item.quantity = 9\<close> computed from the snapshot of its cart line, and the
  store ends with 9. The transaction endpoint of the SQLite server, run twice on the same
  product, subtracts in the store and ends with 8.
\<close>

theorem concurrent_checkouts_lose_update:
  "stock_of (store_after
      (handleCheckout no_faults
         (initial_ui\<lparr>cart := [with_quantity (ceker\<lparr>stock := 10\<rparr>) 1],
            customerName := utf16 ''Budi''\<rparr>)
         (store_after
            (handleCheckout no_faults
               (initial_ui\<lparr>cart := [with_quantity (ceker\<lparr>stock := 10\<rparr>) 1],
                  customerName := utf16 ''Ani''\<rparr>)
               (seeded_store\<lparr>products := [ceker\<lparr>stock := 10\<rparr>]\<rparr>))))) 3
   = Some 9 \<and>
   calls
      (handleCheckout no_faults
         (initial_ui\<lparr>cart := [with_quantity (ceker\<lparr>stock := 10\<rparr>) 1],
            customerName := utf16 ''Budi''\<rparr>)
         (store_after
            (handleCheckout no_faults
               (initial_ui\<lparr>cart := [with_quantity (ceker\<lparr>stock := 10\<rparr>) 1],
                  customerName := utf16 ''Ani''\<rparr>)
               (seeded_store\<lparr>products := [ceker\<lparr>stock := 10\<rparr>]\<rparr>)))) ! 2
   = UpdateStock 3 9 \<and>
   map stock (updateStock 1 3 (updateStock 1 3 [ceker\<lparr>stock := 10\<rparr>])) = [8]"
  by (simp add: sample_defs checkout_defs stock_of_def updateStock_def)

section \<open>Lemmas about the grouping object\<close>

lemma own_insert_set:
  "set (own_insert kind k v acc) = insert (k, v) (set acc)"
  by (induction acc) (auto split: key_kind.splits if_splits)

lemma own_insert_keys:
  "fst ` set (own_insert kind k v acc) = insert k (fst ` set acc)"
  by (simp add: own_insert_set)

lemma own_insert_distinct:
  "distinct (map fst acc) \<Longrightarrow> k \<notin> set (map fst acc) \<Longrightarrow>
   distinct (map fst (own_insert kind k v acc))"
proof (induction acc)
  case Nil
  then show ?case by simp
next
  case (Cons p acc)
  then show ?case
    using own_insert_keys [of kind k v acc]
    by (cases p) (auto split: key_kind.splits)
qed

lemma own_insert_map_of:
  "k \<notin> set (map fst acc) \<Longrightarrow> map_of (own_insert kind k v acc) = (map_of acc)(k \<mapsto> v)"
  by (induction acc) (auto split: key_kind.splits)

lemma own_insert_Plain:
  "kind k = Plain \<Longrightarrow> own_insert kind k v acc = acc @ [(k, v)]"
  by (induction acc) auto

lemma replace_keys:
  "map fst (map (\<lambda>(k', v'). if k' = k then (k', w) else (k', v')) acc) = map fst acc"
  by (induction acc) auto

lemma replace_map_of:
  "map_of (map (\<lambda>(k', v'). if k' = k then (k', w) else (k', v')) acc) k'' =
     (if k'' = k then map_option (\<lambda>_. w) (map_of acc k) else map_of acc k'')"
  by (induction acc) auto

lemma add_to_key_keys:
  "fst ` set (add_to_key kind acc k q) = insert k (fst ` set acc)"
proof (cases "map_of acc k")
  case None
  then show ?thesis by (simp add: add_to_key_def own_insert_keys)
next
  case (Some v)
  then have "k \<in> fst ` set acc"
    by (metis map_of_eq_None_iff option.distinct(1))
  moreover have "fst ` set (add_to_key kind acc k q) = fst ` set acc"
    using Some replace_keys [of k "v + q" acc]
    by (simp only: add_to_key_def option.case set_map [symmetric])
  ultimately show ?thesis by auto
qed

lemma add_to_key_distinct:
  "distinct (map fst acc) \<Longrightarrow> distinct (map fst (add_to_key kind acc k q))"
proof (cases "map_of acc k")
  case None
  assume "distinct (map fst acc)"
  moreover from None have "k \<notin> set (map fst acc)"
    by (simp add: map_of_eq_None_iff)
  ultimately show ?thesis
    using None by (simp add: add_to_key_def own_insert_distinct)
next
  case (Some v)
  assume "distinct (map fst acc)"
  with Some show ?thesis
    by (simp only: add_to_key_def option.case replace_keys)
qed

lemma add_to_key_map_of:
  "map_of (add_to_key kind acc k q) k' =
     (if k' = k then Some (value_at acc k + q) else map_of acc k')"
proof (cases "map_of acc k")
  case None
  then have "k \<notin> set (map fst acc)"
    by (simp add: map_of_eq_None_iff)
  with None show ?thesis
    by (simp add: add_to_key_def own_insert_map_of value_at_def)
next
  case (Some v)
  then show ?thesis
    by (simp add: add_to_key_def replace_map_of value_at_def)
qed

lemma value_at_add_to_key:
  "value_at (add_to_key kind acc k q) k' = value_at acc k' + (if k' = k then q else 0)"
  by (simp add: value_at_def add_to_key_map_of split: option.splits)

text \<open>The fold, from any accumulator.\<close>

lemma fold_keys:
  "fst ` set (foldl (\<lambda>acc curr. add_to_key kind acc (key curr) (val curr)) acc rows) =
     fst ` set acc \<union> key ` set rows"
  by (induction rows arbitrary: acc) (simp_all add: add_to_key_keys)

lemma fold_distinct:
  "distinct (map fst acc) \<Longrightarrow>
   distinct (map fst (foldl (\<lambda>acc curr. add_to_key kind acc (key curr) (val curr)) acc rows))"
  by (induction rows arbitrary: acc) (auto simp: add_to_key_distinct)

lemma fold_value_at:
  "value_at (foldl (\<lambda>acc curr. add_to_key kind acc (key curr) (val curr)) acc rows) k =
     value_at acc k + total_for key val rows k"
  by (induction rows arbitrary: acc) (auto simp: value_at_add_to_key total_for_def)

lemma reduce_by_keys: "fst ` set (reduce_by kind key val rows) = key ` set rows"
  by (simp add: reduce_by_def fold_keys)

lemma reduce_by_distinct: "distinct (map fst (reduce_by kind key val rows))"
  by (simp add: reduce_by_def fold_distinct)

lemma reduce_by_total:
  assumes "(k, t) \<in> set (reduce_by kind key val rows)"
  shows "t = total_for key val rows k"
proof -
  have "map_of (reduce_by kind key val rows) k = Some t"
    using assms reduce_by_distinct [of kind key val rows] by simp
  then have "value_at (reduce_by kind key val rows) k = t"
    by (simp add: value_at_def)
  then show ?thesis
    using fold_value_at [of kind key val "[]" rows k]
    by (simp add: reduce_by_def value_at_def)
qed

lemma sorted_tail_greater:
  fixes xs :: "('d::linorder \<times> int) list"
  assumes s: "sorted (map fst xs)"
    and "d \<in> fst ` set xs" and "d \<notin> fst ` set (drop n xs)" and "d' \<in> fst ` set (drop n xs)"
  shows "d < d'"
proof -
  have "xs = take n xs @ drop n xs" by simp
  then have "fst ` set xs = fst ` set (take n xs) \<union> fst ` set (drop n xs)"
    by (metis image_Un set_append)
  with assms have t: "d \<in> fst ` set (take n xs)" by blast
  have "sorted (map fst (take n xs) @ map fst (drop n xs))"
    using s by (metis append_take_drop_id map_append)
  then have "\<forall>x \<in> set (map fst (take n xs)). \<forall>y \<in> set (map fst (drop n xs)). x \<le> y"
    by (simp add: sorted_append)
  with t assms(4) have "d \<le> d'" by auto
  moreover have "d \<noteq> d'" using assms(3,4) by blast
  ultimately show ?thesis by simp
qed

lemma first_seen_snoc:
  "first_seen (xs @ [x]) = (if x \<in> set xs then first_seen xs else first_seen xs @ [x])"
  by (simp add: first_seen_def)

lemma set_first_seen: "set (first_seen xs) = set xs"
  by (simp add: first_seen_def)

lemma distinct_first_seen: "distinct (first_seen xs)"
  by (simp add: first_seen_def)

lemma total_for_snoc:
  "total_for key val (rows @ [x]) k =
     total_for key val rows k + (if key x = k then val x else 0)"
  by (simp add: total_for_def)

lemma total_for_absent: "k \<notin> key ` set rows \<Longrightarrow> total_for key val rows k = 0"
  by (induction rows) (auto simp: total_for_def)

lemma grouped_spec_map_of:
  "map_of (grouped_spec items) n =
     (if n \<in> fst ` set items then Some (total_for fst snd items n) else None)"
  by (simp add: grouped_spec_def map_of_map_restrict set_first_seen restrict_map_def)

lemma grouped_spec_snoc:
  "add_to_key kind (grouped_spec items) n q =
     (if kind n = Plain \<or> n \<in> fst ` set items then grouped_spec (items @ [(n, q)])
      else own_insert kind n q (grouped_spec items))"
proof (cases "n \<in> fst ` set items")
  case True
  have "map (\<lambda>(k', v'). if k' = n then (k', total_for fst snd items n + q) else (k', v'))
          (grouped_spec items) = grouped_spec (items @ [(n, q)])"
    using True by (auto simp: grouped_spec_def first_seen_snoc total_for_snoc)
  with True show ?thesis
    by (simp add: add_to_key_def grouped_spec_map_of)
next
  case False
  then have "grouped_spec (items @ [(n, q)]) = grouped_spec items @ [(n, q)]"
    by (auto simp: grouped_spec_def first_seen_snoc total_for_snoc total_for_absent
          set_first_seen)
  with False show ?thesis
    by (simp add: add_to_key_def grouped_spec_map_of own_insert_Plain)
qed

lemma reduce_by_Plain:
  "\<forall>curr \<in> set items. kind (fst curr) = Plain \<Longrightarrow>
   reduce_by kind fst snd items = grouped_spec items"
proof (induction items rule: rev_induct)
  case Nil
  show ?case by (simp add: reduce_by_def grouped_spec_def first_seen_def)
next
  case (snoc x items)
  then have "reduce_by kind fst snd items = grouped_spec items" by simp
  then have "reduce_by kind fst snd (items @ [x]) =
             add_to_key kind (grouped_spec items) (fst x) (snd x)"
    by (simp add: reduce_by_def)
  also have "\<dots> = grouped_spec (items @ [(fst x, snd x)])"
    using snoc.prems by (simp add: grouped_spec_snoc)
  finally show ?case by simp
qed

lemma january_days:
  "january = map (\<lambda>d. ((2024, 1, d), 9))
     [1, 2, 3, 4, 5, 6, 7, 8, 9, 10, 11, 12, 13, 14, 15, 16, 17, 18, 19, 20, 21, 22, 23, 24,
      25, 26, 27, 28, 29, 30, 31]"
  by (simp add: january_def upt_rec)

lemma formattedSales_january:
  "formattedSales fst
     (map (\<lambda>ts. (ts, 1000)) january @ [(((2024, 2, 1), 8), 500), (((2024, 1, 3), 17), 7)]) =
   ((2024, 1, 3), 1007) # map (\<lambda>d. ((2024, 1, d), 1000)) [4..<32] @ [((2024, 2, 1), 500)]"
  by (simp add: january_days formattedSales_def reduce_by_def add_to_key_def upt_rec)

section \<open>Theorems about the analytics\<close>

text \<open>
  The daily sales series that \<open>fetchAnalytics\<close> computes from the rows of all
  transactions is in strictly ascending order of the date, with one entry for each date
  it keeps; every entry is the date of some transaction with the sum of \<open>total_amount\<close>
  over the transactions of that date; it has 30 entries, or as many as there are dates
  when these are fewer; and every date of a transaction that it leaves out is earlier
  than every date it keeps, so that the dates kept are the most recent ones.
\<close>

theorem formattedSales_series:
  fixes iso_date :: "'ts \<Rightarrow> 'd::linorder"
  shows "sorted (map fst (formattedSales iso_date sales)) \<and>
     distinct (map fst (formattedSales iso_date sales)) \<and>
     length (formattedSales iso_date sales) = min 30 (card (iso_date ` fst ` set sales)) \<and>
     (\<forall>(d, t) \<in> set (formattedSales iso_date sales).
        d \<in> iso_date ` fst ` set sales \<and>
        t = (\<Sum>curr\<leftarrow>sales. if iso_date (fst curr) = d then snd curr else 0)) \<and>
     (\<forall>d \<in> iso_date ` fst ` set sales.
        d \<notin> fst ` set (formattedSales iso_date sales) \<longrightarrow>
        (\<forall>d' \<in> fst ` set (formattedSales iso_date sales). d < d'))"
proof -
  define g where "g = reduce_by (\<lambda>_. Plain) (\<lambda>curr. iso_date (fst curr)) snd sales"
  define s where "s = sort_key fst g"
  define n where "n = length s - 30"
  have r: "formattedSales iso_date sales = drop n s"
    by (simp add: formattedSales_def g_def s_def n_def Let_def)
  have gk: "fst ` set g = iso_date ` fst ` set sales"
    by (simp add: g_def reduce_by_keys image_image)
  have gd: "distinct (map fst g)"
    by (simp add: g_def reduce_by_distinct)
  have ss: "set s = set g" by (simp add: s_def)
  have sd: "distinct (map fst s)"
    using gd by (simp add: s_def distinct_map)
  have so: "sorted (map fst s)"
    by (simp add: s_def)
  have 1: "sorted (map fst (drop n s))"
    using so by (simp add: drop_map [symmetric])
  have 2: "distinct (map fst (drop n s))"
    using sd by (simp add: drop_map [symmetric])
  have "length s = card (fst ` set s)"
    using sd by (metis distinct_card length_map set_map)
  then have 3: "length (drop n s) = min 30 (card (iso_date ` fst ` set sales))"
    using ss gk by (simp add: n_def)
  have 4: "\<forall>(d, t) \<in> set (drop n s).
        d \<in> iso_date ` fst ` set sales \<and>
        t = (\<Sum>curr\<leftarrow>sales. if iso_date (fst curr) = d then snd curr else 0)"
  proof (clarify, rule conjI)
    fix d t assume "(d, t) \<in> set (drop n s)"
    then have m: "(d, t) \<in> set g"
      using ss by (metis in_set_dropD)
    then show "d \<in> iso_date ` fst ` set sales"
      using gk by force
    show "t = (\<Sum>curr\<leftarrow>sales. if iso_date (fst curr) = d then snd curr else 0)"
      using reduce_by_total [OF m [unfolded g_def]] by (simp add: total_for_def)
  qed
  have 5: "\<forall>d \<in> iso_date ` fst ` set sales.
        d \<notin> fst ` set (drop n s) \<longrightarrow> (\<forall>d' \<in> fst ` set (drop n s). d < d')"
    using sorted_tail_greater [OF so] gk ss by metis
  show ?thesis
    unfolding r using 1 2 3 4 5 by blast
qed

theorem formattedSales_series_example:
  "formattedSales fst
     (map (\<lambda>ts. (ts, 1000)) january @ [(((2024, 2, 1), 8), 500), (((2024, 1, 3), 17), 7)]) =
   ((2024, 1, 3), 1007) # map (\<lambda>d. ((2024, 1, d), 1000)) [4..<32] @ [((2024, 2, 1), 500)] \<and>
   length (formattedSales fst
     (map (\<lambda>ts. (ts, 1000)) january @ [(((2024, 2, 1), 8), 500), (((2024, 1, 3), 17), 7)])) = 30 \<and>
   (2024 :: nat, 1 :: nat, 2 :: nat) \<in> fst ` fst ` set
     (map (\<lambda>ts. (ts, 1000 :: int)) january @ [(((2024, 2, 1), 8), 500), (((2024, 1, 3), 17), 7)]) \<and>
   (2024 :: nat, 1 :: nat, 2 :: nat) < (2024, 1, 3)"
proof -
  let ?sales = "map (\<lambda>ts. (ts, 1000 :: int)) january @
     [(((2024 :: nat, 2 :: nat, 1 :: nat), 8 :: nat), 500), (((2024, 1, 3), 17), 7)]"
  have e: "formattedSales fst ?sales =
     ((2024, 1, 3), 1007) # map (\<lambda>d. ((2024, 1, d), 1000)) [4..<32] @ [((2024, 2, 1), 500)]"
    by (rule formattedSales_january)
  have m: "(2024, 1, 2) \<in> fst ` fst ` set ?sales"
    by (simp add: january_days)
  have l: "length (formattedSales fst ?sales) = 30"
    by (simp only: e) simp
  have o: "(2024 :: nat, 1 :: nat, 2 :: nat) < (2024, 1, 3)"
    by simp
  from formattedSales_series [of fst ?sales] show ?thesis
    using e m l o by blast
qed

text \<open>
  C9. The specification: the daily sales series keeps the most recent 30 dates. The code at a
  failing input: the sales endpoint of the SQLite server (src/unnamed/part_001,
  \<open>/api/analytics/sales\<close>) on one sale for each of the 31 days of January 2024. Its
  query orders the dates ascending and takes the first 30 rows, so it returns the days 1
  to 30 and leaves out the most recent one. \<open>fetchAnalytics\<close> on the same rows keeps
  the last 30 of the ascending order, the days 2 to 31.
\<close>

theorem sales_endpoint_keeps_oldest:
  "map fst (sales_endpoint fst (map (\<lambda>ts. (ts, 1000)) january)) =
     map (\<lambda>d. (2024, 1, d)) [1..<31] \<and>
   map fst (formattedSales fst (map (\<lambda>ts. (ts, 1000)) january)) =
     map (\<lambda>d. (2024, 1, d)) [2..<32]"
  by (simp add: january_days sales_endpoint_def total_for_def formattedSales_def
        reduce_by_def add_to_key_def upt_rec)

text \<open>
  C7, as amended. For product names none of which \<open>Object.prototype\<close> defines, the
  top-products view is the first 10 entries of a ranking that has one entry for each
  product name of the rows, with the sum of the quantities of that name, in descending
  order of the sum. When moreover no product name is an array index, entries with equal
  sums stand in the order in which their names first occur in the rows.
\<close>

theorem top_products_view:
  assumes "\<forall>curr \<in> set items. name_kind (fst curr) \<noteq> Inherited"
  shows "\<exists>ranked.
           formattedProducts items = Some (take 10 ranked) \<and>
           distinct (map fst ranked) \<and>
           fst ` set ranked = fst ` set items \<and>
           (\<forall>(n, q) \<in> set ranked. q = (\<Sum>curr\<leftarrow>items. if fst curr = n then snd curr else 0)) \<and>
           sorted (map (\<lambda>e. - snd e) ranked) \<and>
           ((\<forall>curr \<in> set items. \<not> is_array_index (fst curr)) \<longrightarrow>
              (\<forall>q. map fst (filter (\<lambda>e. snd e = q) ranked) =
                    filter (\<lambda>n. (\<Sum>curr\<leftarrow>items. if fst curr = n then snd curr else 0) = q)
                      (first_seen (map fst items))))"
proof -
  define g where "g = reduce_by name_kind fst snd items"
  define ranked where "ranked = sort_key (\<lambda>e. - snd e) g"
  have "\<not> list_ex (\<lambda>curr. name_kind (fst curr) = Inherited) items"
    using assms by (auto simp: list_ex_iff)
  then have 1: "formattedProducts items = Some (take 10 ranked)"
    by (simp add: formattedProducts_def ranked_def g_def)
  have s: "set ranked = set g" by (simp add: ranked_def)
  have 2: "distinct (map fst ranked)"
    using reduce_by_distinct [of name_kind fst snd items]
    by (simp add: ranked_def g_def distinct_map)
  have 3: "fst ` set ranked = fst ` set items"
    by (simp add: s g_def reduce_by_keys)
  have 4: "\<forall>(n, q) \<in> set ranked. q = (\<Sum>curr\<leftarrow>items. if fst curr = n then snd curr else 0)"
    using reduce_by_total [of _ _ name_kind fst snd items]
    by (auto simp: s g_def total_for_def)
  have 5: "sorted (map (\<lambda>e. - snd e) ranked)"
    by (simp add: ranked_def)
  have 6: "map fst (filter (\<lambda>e. snd e = q) ranked) =
             filter (\<lambda>n. (\<Sum>curr\<leftarrow>items. if fst curr = n then snd curr else 0) = q)
               (first_seen (map fst items))"
    if p: "\<forall>curr \<in> set items. \<not> is_array_index (fst curr)" for q
  proof -
    have "\<forall>curr \<in> set items. name_kind (fst curr) = Plain"
      using assms p by (auto simp: name_kind_def)
    then have "g = grouped_spec items"
      by (simp add: g_def reduce_by_Plain)
    then have "filter (\<lambda>e. snd e = q) ranked = filter (\<lambda>e. snd e = q) (grouped_spec items)"
      using sort_key_stable [of "\<lambda>e. - snd e" "- q" "grouped_spec items"]
      by (simp add: ranked_def)
    then show ?thesis
      by (simp add: grouped_spec_def filter_map comp_def total_for_def)
  qed
  show ?thesis using 1 2 3 4 5 6 by blast
qed

theorem top_products_view_witness:
  "formattedProducts [(''Ceker'', 1), (''Bakso'', 4), (''Ceker'', 2), (''Sosis'', 3)] =
     Some [(''Bakso'', 4), (''Ceker'', 3), (''Sosis'', 3)] \<and>
   first_seen (map fst [(''Ceker'', 1 :: int), (''Bakso'', 4), (''Ceker'', 2), (''Sosis'', 3)]) =
     [''Ceker'', ''Bakso'', ''Sosis''] \<and>
   formattedProducts [(''A'', 3), (''B'', 5), (''A'', 2)] = Some [(''A'', 5), (''B'', 5)] \<and>
   first_seen (map fst [(''A'', 3 :: int), (''B'', 5), (''A'', 2)]) = [''A'', ''B''] \<and>
   name_kind ''Ceker'' = Plain \<and> name_kind ''Bakso'' = Plain \<and> name_kind ''Sosis'' = Plain \<and>
   name_kind ''A'' = Plain \<and> name_kind ''B'' = Plain"
proof -
  let ?items = "[(''Ceker'', 1 :: int), (''Bakso'', 4), (''Ceker'', 2), (''Sosis'', 3)]"
  let ?example = "[(''A'', 3 :: int), (''B'', 5), (''A'', 2)]"
  have k: "name_kind ''Ceker'' = Plain" "name_kind ''Bakso'' = Plain" "name_kind ''Sosis'' = Plain"
    "name_kind ''A'' = Plain" "name_kind ''B'' = Plain"
    by (simp_all add: name_kind_defs)
  then have p: "\<forall>curr \<in> set ?items. name_kind (fst curr) \<noteq> Inherited"
    and q: "\<forall>curr \<in> set ?example. name_kind (fst curr) \<noteq> Inherited"
    by simp_all
  have e: "formattedProducts ?items = Some [(''Bakso'', 4), (''Ceker'', 3), (''Sosis'', 3)]"
    "formattedProducts ?example = Some [(''A'', 5), (''B'', 5)]"
    by (simp_all add: formattedProducts_def reduce_by_def add_to_key_def k)
  from top_products_view [OF p] top_products_view [OF q] e k show ?thesis
    by (simp add: first_seen_def)
qed

text \<open>
  C7, as the specification states it, fails. On the rows of its example, \<open>A\<close> 3,
  \<open>B\<close> 5, \<open>A\<close> 2, both names sum to 5 and the view lists \<open>A\<close>, the name
  encountered first, before \<open>B\<close>: the result is not the list \<open>B\<close>, \<open>A\<close> that the
  specification gives. And a name that is an
  array index comes before a name encountered earlier with the same sum: on \<open>B\<close> 5,
  \<open>7\<close> 5 the view lists \<open>7\<close> first.
\<close>

theorem top_products_example_order:
  "formattedProducts [(''A'', 3), (''B'', 5), (''A'', 2)] = Some [(''A'', 5), (''B'', 5)] \<and>
   formattedProducts [(''A'', 3), (''B'', 5), (''A'', 2)] \<noteq> Some [(''B'', 5), (''A'', 5)] \<and>
   formattedProducts [(''B'', 5), (''7'', 5)] = Some [(''7'', 5), (''B'', 5)] \<and>
   first_seen (map fst [(''B'', 5 :: int), (''7'', 5)]) = [''B'', ''7'']"
  by (simp add: formattedProducts_def reduce_by_def add_to_key_def name_kind_defs first_seen_def)

end
